theory Spec2Isabelle
  imports Complex_Main "HOL-Library.AList" "HOL-Library.Multiset" "HOL-Library.Log_Nat"
begin

section \<open>Numbers of the household-finance tracker\<close>

text \<open>
  The screens compute with JavaScript numbers. The model keeps the shapes the code can
  tell apart: a finite number, carried as a \<open>real\<close>, \<open>NaN\<close> (what \<open>Number\<close> and
  \<open>parseFloat\<close> give for something that is not a number, and what \<open>0 / 0\<close> gives)
  and the two infinities (what a division of a non-zero number by zero gives). The two
  zeros are one.

  The arithmetic of the goal calculator (\<open>js_sub\<close>, \<open>js_mul\<close>, \<open>js_div\<close>) is exact
  on finite numbers: its guards and bounds do not depend on rounding. The sums of the
  daily totals do depend on it, since the order of the additions decides where they
  round; they are computed with \<open>binary64_add\<close> and \<open>binary64_sub\<close> below, which
  round every result to the nearest double as the runtime does.
\<close>

datatype jsnum = Fin real | NaN | Infinity | NegInfinity

definition isNaN :: "jsnum \<Rightarrow> bool" where
  "isNaN x = (case x of NaN \<Rightarrow> True | _ \<Rightarrow> False)"

text \<open>Truthiness of a number: \<open>0\<close> and \<open>NaN\<close> are falsy.\<close>

definition js_truthy :: "jsnum \<Rightarrow> bool" where
  "js_truthy x = (case x of Fin r \<Rightarrow> r \<noteq> 0 | NaN \<Rightarrow> False | _ \<Rightarrow> True)"

text \<open>\<open>a < b\<close> and \<open>a <= b\<close>: false as soon as one side is \<open>NaN\<close>.\<close>

fun js_less :: "jsnum \<Rightarrow> jsnum \<Rightarrow> bool" where
  "js_less NaN b = False"
| "js_less a NaN = False"
| "js_less (Fin x) (Fin y) = (x < y)"
| "js_less (Fin x) Infinity = True"
| "js_less (Fin x) NegInfinity = False"
| "js_less Infinity b = False"
| "js_less NegInfinity NegInfinity = False"
| "js_less NegInfinity b = True"

definition js_less_eq :: "jsnum \<Rightarrow> jsnum \<Rightarrow> bool" where
  "js_less_eq a b = (\<not> isNaN a \<and> \<not> isNaN b \<and> (js_less a b \<or> a = b))"

text \<open>\<open>a > b\<close> is \<open>b < a\<close>.\<close>

definition js_greater :: "jsnum \<Rightarrow> jsnum \<Rightarrow> bool" where
  "js_greater a b = js_less b a"

fun js_neg :: "jsnum \<Rightarrow> jsnum" where
  "js_neg (Fin x) = Fin (- x)"
| "js_neg NaN = NaN"
| "js_neg Infinity = NegInfinity"
| "js_neg NegInfinity = Infinity"

fun js_add :: "jsnum \<Rightarrow> jsnum \<Rightarrow> jsnum" where
  "js_add NaN b = NaN"
| "js_add a NaN = NaN"
| "js_add (Fin x) (Fin y) = Fin (x + y)"
| "js_add (Fin x) b = b"
| "js_add a (Fin y) = a"
| "js_add Infinity Infinity = Infinity"
| "js_add NegInfinity NegInfinity = NegInfinity"
| "js_add Infinity NegInfinity = NaN"
| "js_add NegInfinity Infinity = NaN"

definition js_sub :: "jsnum \<Rightarrow> jsnum \<Rightarrow> jsnum" where
  "js_sub a b = js_add a (js_neg b)"

text \<open>The sign of a number that is not \<open>NaN\<close>, as \<open>-1\<close>, \<open>0\<close> or \<open>1\<close>.\<close>

fun js_sign :: "jsnum \<Rightarrow> int" where
  "js_sign (Fin x) = (if x < 0 then - 1 else if x = 0 then 0 else 1)"
| "js_sign Infinity = 1"
| "js_sign NegInfinity = - 1"
| "js_sign NaN = 0"

definition signed_infinity :: "int \<Rightarrow> jsnum" where
  "signed_infinity s = (if s < 0 then NegInfinity else Infinity)"

fun js_mul :: "jsnum \<Rightarrow> jsnum \<Rightarrow> jsnum" where
  "js_mul NaN b = NaN"
| "js_mul a NaN = NaN"
| "js_mul (Fin x) (Fin y) = Fin (x * y)"
| "js_mul a b = (if js_sign a * js_sign b = 0 then NaN
                 else signed_infinity (js_sign a * js_sign b))"

text \<open>
  Division: a finite quotient only for a finite dividend and a divisor that is finite
  and not zero; \<open>0 / 0\<close> and an infinity over an infinity are \<open>NaN\<close>; a non-zero number
  over zero is an infinity; a finite number over an infinity is zero.
\<close>

fun js_div :: "jsnum \<Rightarrow> jsnum \<Rightarrow> jsnum" where
  "js_div NaN b = NaN"
| "js_div a NaN = NaN"
| "js_div (Fin x) (Fin y) =
     (if y \<noteq> 0 then Fin (x / y)
      else if x = 0 then NaN
      else signed_infinity (js_sign (Fin x)))"
| "js_div (Fin x) b = Fin 0"
| "js_div a (Fin y) = signed_infinity (js_sign a * (if y < 0 then - 1 else 1))"
| "js_div a b = NaN"

text \<open>\<open>Math.min\<close> and \<open>Math.max\<close> of two numbers: \<open>NaN\<close> if one of them is.\<close>

definition Math_min :: "jsnum \<Rightarrow> jsnum \<Rightarrow> jsnum" where
  "Math_min a b = (if isNaN a \<or> isNaN b then NaN else if js_less b a then b else a)"

definition Math_max :: "jsnum \<Rightarrow> jsnum \<Rightarrow> jsnum" where
  "Math_max a b = (if isNaN a \<or> isNaN b then NaN else if js_less a b then b else a)"

text \<open>\<open>Number(v) || 0\<close>: a falsy number is replaced by \<open>0\<close>, every other is kept.\<close>

definition number_or_zero :: "jsnum \<Rightarrow> jsnum" where
  "number_or_zero v = (if js_truthy v then v else Fin 0)"

text \<open>\<open>s || ""\<close> on a nullable string: \<open>null\<close> and the empty string give \<open>""\<close>.\<close>

definition string_or_empty :: "string option \<Rightarrow> string" where
  "string_or_empty v = (case v of None \<Rightarrow> [] | Some s \<Rightarrow> (if s = [] then [] else s))"

text \<open>\<open>s || null\<close> on a string.\<close>

definition string_or_null :: "string \<Rightarrow> string option" where
  "string_or_null s = (if s = [] then None else Some s)"

subsection \<open>Rounding to the nearest double\<close>

text \<open>
  A finite double is a whole multiple \<open>m * 2 ^ e\<close> with \<open>\<bar>m\<bar> < 2 ^ 53\<close> and
  \<open>- 1074 \<le> e \<le> 971\<close>. \<open>pow2 e\<close> is \<open>2 ^ e\<close> for a whole exponent of either sign,
  and \<open>binade a\<close> is the exponent \<open>e\<close> with \<open>2 ^ e \<le> a < 2 ^ (e + 1)\<close> of a
  positive number.
\<close>

definition pow2 :: "int \<Rightarrow> real" where
  "pow2 e = (if 0 \<le> e then 2 ^ nat e else 1 / 2 ^ nat (- e))"

definition binade :: "real \<Rightarrow> int" where
  "binade a = (if 1 \<le> a then bitlen \<lfloor>a\<rfloor> - 1 else - bitlen (\<lceil>1 / a\<rceil> - 1))"

text \<open>The nearest whole number, the even one of the two when they are equally near.\<close>

definition round_half_even :: "real \<Rightarrow> int" where
  "round_half_even q =
     (let f = \<lfloor>q\<rfloor>; d = q - of_int f
      in if d < 1 / 2 then f else if 1 / 2 < d then f + 1 else if even f then f else f + 1)"

text \<open>
  \<open>binary64 x\<close> is the double nearest to \<open>x\<close> (IEEE 754 round to nearest, ties to
  even). The spacing of the doubles around \<open>x\<close> is \<open>2 ^ (e - 52)\<close> in the binade
  \<open>e\<close> of \<open>\<bar>x\<bar>\<close>, and \<open>2 ^ - 1074\<close> below \<open>2 ^ - 1022\<close>; a result that reaches
  \<open>2 ^ 1024\<close> is an infinity.
\<close>

definition binary64 :: "real \<Rightarrow> jsnum" where
  "binary64 x =
     (if x = 0 then Fin 0
      else (let a = \<bar>x\<bar>;
                e = max (binade a) (- 1022);
                q = pow2 (e - 52);
                y = of_int (round_half_even (a / q)) * q
            in if pow2 1024 \<le> y then (if x < 0 then NegInfinity else Infinity)
               else Fin (if x < 0 then - y else y)))"

text \<open>\<open>a + b\<close> and \<open>a - b\<close> on doubles: the exact result, rounded.\<close>

fun binary64_add :: "jsnum \<Rightarrow> jsnum \<Rightarrow> jsnum" where
  "binary64_add NaN b = NaN"
| "binary64_add a NaN = NaN"
| "binary64_add (Fin x) (Fin y) = binary64 (x + y)"
| "binary64_add (Fin x) b = b"
| "binary64_add a (Fin y) = a"
| "binary64_add Infinity Infinity = Infinity"
| "binary64_add NegInfinity NegInfinity = NegInfinity"
| "binary64_add Infinity NegInfinity = NaN"
| "binary64_add NegInfinity Infinity = NaN"

definition binary64_sub :: "jsnum \<Rightarrow> jsnum \<Rightarrow> jsnum" where
  "binary64_sub a b = binary64_add a (js_neg b)"

text \<open>
  A whole amount is a finite number without fractional part; its magnitude is its
  absolute value. Whole numbers up to \<open>2 ^ 53\<close> are doubles, and their sums are exact
  as long as they stay in that range.
\<close>

definition whole :: "jsnum \<Rightarrow> bool" where
  "whole a = (case a of Fin r \<Rightarrow> r = of_int \<lfloor>r\<rfloor> | _ \<Rightarrow> False)"

definition magnitude :: "jsnum \<Rightarrow> real" where
  "magnitude a = (case a of Fin r \<Rightarrow> \<bar>r\<bar> | _ \<Rightarrow> 0)"

definition finite_value :: "jsnum \<Rightarrow> real" where
  "finite_value a = (case a of Fin r \<Rightarrow> r | _ \<Rightarrow> 0)"

section \<open>Savings goals (src/app/dashboard/goals/page.tsx)\<close>

text \<open>
  The columns of \<open>savings_goals\<close> (the declarations of \<open>@/types/database\<close> are
  not in the repository; the columns are those the screen reads and writes): the
  payload of an insert, the stored row, which adds the identifier and the creation time
  the store assigns, and the row extended by the figures \<open>fetchGoals\<close> derives from it
  (\<open>interface GoalWithCalculations extends SavingsGoal\<close>).
\<close>

record SavingsGoalInsert =
  user_id :: string
  goal_name :: string
  target_amount :: jsnum
  current_amount :: jsnum
  deadline :: "string option"
  is_active :: bool

record SavingsGoal = SavingsGoalInsert +
  goal_id :: int
  created_at :: string

record GoalWithCalculations = SavingsGoal +
  progress_percentage :: jsnum
  monthly_required_amount :: jsnum
  days_remaining :: "int option"
  months_remaining :: "int option"

text \<open>
  The calendar operations come from the JavaScript runtime and from the date-fns
  library, neither of which is part of the repository; the calculator takes them as a
  parameter. \<open>new_Date s\<close> is \<open>new Date(s)\<close> followed by the test
  \<open>!isNaN(d.getTime())\<close>: \<open>None\<close> when the string does not parse.
  \<open>toISOString\<close> is only ever applied to a date that parsed.
\<close>

record 'd date_lib =
  new_Date :: "string \<Rightarrow> 'd option"
  differenceInMonths :: "'d \<Rightarrow> 'd \<Rightarrow> int"
  differenceInDays :: "'d \<Rightarrow> 'd \<Rightarrow> int"
  toISOString :: "'d \<Rightarrow> string"

text \<open>
  The \<open>if (goal.deadline) { ... }\<close> block of \<open>fetchGoals\<close>: it leaves
  \<open>monthsRemaining\<close>, \<open>daysRemaining\<close>, \<open>monthlyRequired\<close> and
  \<open>validDeadline\<close> at \<open>null\<close>, \<open>null\<close>, \<open>0\<close>, \<open>null\<close> unless the deadline is a
  non-empty string that parses. The differences of date-fns are whole numbers.
\<close>

definition deadline_block ::
  "'d date_lib \<Rightarrow> 'd \<Rightarrow> string option \<Rightarrow> jsnum \<Rightarrow> jsnum
     \<Rightarrow> int option \<times> int option \<times> jsnum \<times> 'd option" where
  "deadline_block lib today dl targetAmount currentAmount =
     (case dl of
        None \<Rightarrow> (None, None, Fin 0, None)
      | Some s \<Rightarrow>
          if s = [] then (None, None, Fin 0, None)
          else (case new_Date lib s of
                  None \<Rightarrow> (None, None, Fin 0, None)
                | Some deadlineDate \<Rightarrow>
                    (let monthsRemaining = differenceInMonths lib deadlineDate today;
                         daysRemaining = differenceInDays lib deadlineDate today;
                         monthlyRequired =
                           (if monthsRemaining > 0
                            then (let remaining = js_sub targetAmount currentAmount
                                  in js_div remaining (Fin (real_of_int monthsRemaining)))
                            else Fin 0)
                     in (Some monthsRemaining, Some daysRemaining, monthlyRequired,
                         Some deadlineDate))))"

text \<open>
  The body of the \<open>map\<close> callback of \<open>fetchGoals\<close>, for one row; \<open>today\<close> is the
  \<open>new Date()\<close> the callback takes for that row.
\<close>

definition goalWithCalc :: "'d date_lib \<Rightarrow> 'd \<Rightarrow> SavingsGoal \<Rightarrow> GoalWithCalculations" where
  "goalWithCalc lib today goal =
     (let targetAmount = number_or_zero (target_amount goal);
          currentAmount = number_or_zero (current_amount goal);
          progress =
            (if js_greater targetAmount (Fin 0)
             then js_mul (js_div currentAmount targetAmount) (Fin 100)
             else Fin 0)
      in case deadline_block lib today (deadline goal) targetAmount currentAmount of
           (monthsRemaining, daysRemaining, monthlyRequired, validDeadline) \<Rightarrow>
             \<lparr> user_id = user_id goal,
               goal_name = goal_name goal,
               target_amount = targetAmount,
               current_amount = currentAmount,
               deadline =
                 Some (case validDeadline of
                         Some d \<Rightarrow> take 10 (toISOString lib d)
                       | None \<Rightarrow> string_or_empty (deadline goal)),
               is_active = is_active goal,
               goal_id = goal_id goal,
               created_at = created_at goal,
               progress_percentage = Math_min progress (Fin 100),
               monthly_required_amount = Math_max monthlyRequired (Fin 0),
               days_remaining = daysRemaining,
               months_remaining = monthsRemaining \<rparr>)"

text \<open>
  A date library to run the calculator on concrete rows. Dates are day numbers counted
  from 2024-01-01; it knows three date strings and counts a month as thirty days.
\<close>

definition known_dates :: "(string \<times> int) list" where
  "known_dates = [(''2024-06-15'', 166), (''2024-03-01'', 60), (''2024-12-12'', 346)]"

definition day_lib :: "int date_lib" where
  "day_lib =
     \<lparr> new_Date = map_of known_dates,
       differenceInMonths = (\<lambda>a b. if a \<ge> b then (a - b) div 30 else - ((b - a) div 30)),
       differenceInDays = (\<lambda>a b. a - b),
       toISOString =
         (\<lambda>d. case map_of (map (\<lambda>(s, n). (n, s)) known_dates) d of
                Some s \<Rightarrow> s @ ''T00:00:00.000Z''
              | None \<Rightarrow> ''1970-01-01T00:00:00.000Z'') \<rparr>"

definition goal_row :: "jsnum \<Rightarrow> jsnum \<Rightarrow> string option \<Rightarrow> SavingsGoal" where
  "goal_row t c dl =
     \<lparr> user_id = ''u1'', goal_name = ''trip'',
       target_amount = t, current_amount = c, deadline = dl,
       is_active = True, goal_id = 1, created_at = ''2024-01-01T00:00:00Z'' \<rparr>"

section \<open>Daily totals of the history screen (HistoryPage, fetchTransactions)\<close>

text \<open>
  \<open>type TransactionType = "income" | "expense"\<close>, and a row of \<open>transactions\<close>.
  The loop adds to the income when the type is \<open>"income"\<close> and to the expense
  otherwise, which with this type is when it is \<open>"expense"\<close>.
  \<open>Number(tx.amount)\<close> of a number is the number itself; an amount is a double.
\<close>

datatype TransactionType = Income | Expense

record Transaction =
  transaction_id :: int
  user_id :: string
  type :: TransactionType
  amount :: jsnum
  category_id :: "int option"
  date :: string
  memo :: "string option"
  created_at :: string

record DailyTotal =
  income :: jsnum
  expense :: jsnum
  net :: jsnum

text \<open>
  \<open>totals\<close> is a JavaScript \<open>Map\<close>: an association list in insertion order, where
  \<open>totals.get\<close> is \<open>map_of\<close> and \<open>totals.set\<close> is \<open>AList.update\<close> (the value
  of a present key is replaced in place, a new key is appended). \<open>accumulate\<close> is the
  callback of \<open>txs.forEach\<close>.
\<close>

definition accumulate :: "(string \<times> DailyTotal) list \<Rightarrow> Transaction \<Rightarrow> (string \<times> DailyTotal) list" where
  "accumulate totals tx =
     (let dateKey = date tx;
          existing = (case map_of totals dateKey of
                        Some e \<Rightarrow> e
                      | None \<Rightarrow> \<lparr> income = Fin 0, expense = Fin 0, net = Fin 0 \<rparr>);
          existing1 = (if type tx = Income
                       then existing \<lparr> income := binary64_add (income existing) (amount tx) \<rparr>
                       else existing \<lparr> expense := binary64_add (expense existing) (amount tx) \<rparr>);
          existing2 = existing1 \<lparr> net := binary64_sub (income existing1) (expense existing1) \<rparr>
      in AList.update dateKey existing2 totals)"

definition dailyTotals :: "Transaction list \<Rightarrow> (string \<times> DailyTotal) list" where
  "dailyTotals txs = foldl accumulate [] txs"

text \<open>
  The sum of the amounts of one type on one date: the amounts are added one after the
  other, in the order of the list, starting from \<open>0\<close>.
\<close>

definition amount_on :: "TransactionType \<Rightarrow> string \<Rightarrow> Transaction list \<Rightarrow> jsnum" where
  "amount_on ty d txs =
     foldl binary64_add (Fin 0) (map amount (filter (\<lambda>tx. date tx = d \<and> type tx = ty) txs))"

text \<open>
  What the specification asks of the bucket of one date: the income and the expense are
  the sums over the transactions of that date, and the net is their difference.
\<close>

definition bucket_of_date :: "string \<Rightarrow> Transaction list \<Rightarrow> DailyTotal" where
  "bucket_of_date d txs =
     \<lparr> income = amount_on Income d txs,
       expense = amount_on Expense d txs,
       net = binary64_sub (amount_on Income d txs) (amount_on Expense d txs) \<rparr>"

definition tx_row :: "int \<Rightarrow> string \<Rightarrow> TransactionType \<Rightarrow> jsnum \<Rightarrow> Transaction" where
  "tx_row n d ty a =
     \<lparr> transaction_id = n, user_id = ''u1'', type = ty, amount = a,
       category_id = Some 1, date = d, memo = None,
       created_at = ''2024-06-03T00:00:00Z'' \<rparr>"

text \<open>The three transactions of the specification's scenario, and a reordering of them.\<close>

definition june_txs :: "Transaction list" where
  "june_txs =
     [tx_row 1 ''2024-06-01'' Income (Fin 1000),
      tx_row 2 ''2024-06-01'' Expense (Fin 300),
      tx_row 3 ''2024-06-02'' Expense (Fin 200)]"

definition june_txs_reordered :: "Transaction list" where
  "june_txs_reordered =
     [tx_row 3 ''2024-06-02'' Expense (Fin 200),
      tx_row 2 ''2024-06-01'' Expense (Fin 300),
      tx_row 1 ''2024-06-01'' Income (Fin 1000)]"

text \<open>
  Three incomes of one day, of 0.1, 0.2 and 0.3 (each the double nearest to the
  decimal), in two orders.
\<close>

definition decimal_txs :: "Transaction list" where
  "decimal_txs =
     [tx_row 1 ''2024-06-01'' Income (binary64 (1 / 10)),
      tx_row 2 ''2024-06-01'' Income (binary64 (2 / 10)),
      tx_row 3 ''2024-06-01'' Income (binary64 (3 / 10))]"

definition decimal_txs_reordered :: "Transaction list" where
  "decimal_txs_reordered =
     [tx_row 3 ''2024-06-01'' Income (binary64 (3 / 10)),
      tx_row 2 ''2024-06-01'' Income (binary64 (2 / 10)),
      tx_row 1 ''2024-06-01'' Income (binary64 (1 / 10))]"

section \<open>Creating records: the two entry screens and the new-goal form\<close>

text \<open>
  The messages the screens pass to \<open>setError\<close>, by meaning; the last argument of
  \<open>Save_failed\<close> is the store's own message, which that screen appends.
\<close>

datatype message =
    Enter_amount_correctly
  | Select_category
  | Registration_failed
  | Save_failed string
  | Enter_target_correctly
  | Goal_creation_failed

text \<open>The payload of an insert into \<open>transactions\<close>.\<close>

record TransactionInsert =
  user_id :: string
  type :: TransactionType
  amount :: jsnum
  category_id :: int
  memo :: "string option"
  date :: string

text \<open>
  What a submit handler leaves behind: the component state, the payloads it sent to
  \<open>insert\<close>, and the paths it gave to \<open>router.push\<close>. Timers are not modelled.
\<close>

record ('st, 'p) submitted =
  state :: 'st
  inserts :: "'p list"
  pushed :: "string list"

subsection \<open>InputPage (src/app/dashboard/input/page.tsx)\<close>

record InputPage =
  user :: "string option"
  transactionType :: TransactionType
  amount :: string
  category :: string
  "note" :: string
  date :: string
  loading :: bool
  error :: "message option"
  success :: bool

text \<open>
  \<open>handleSubmit\<close> of InputPage. \<open>parseFloat\<close> is the builtin, \<open>store_insert\<close> the
  store's answer to \<open>insert([values])\<close> (its error, if any) and \<open>today\<close> the value of
  \<open>new Date().toISOString().split("T")[0]\<close>.
\<close>

definition InputPage_handleSubmit ::
  "(string \<Rightarrow> jsnum) \<Rightarrow> (TransactionInsert \<Rightarrow> string option) \<Rightarrow> string \<Rightarrow> InputPage
     \<Rightarrow> (InputPage, TransactionInsert) submitted" where
  "InputPage_handleSubmit parseFloat store_insert today st =
     (case InputPage.user st of
        None \<Rightarrow> \<lparr> state = st, inserts = [], pushed = [''/login''] \<rparr>
      | Some uid \<Rightarrow>
          (let st1 = st \<lparr> InputPage.error := None, InputPage.loading := True \<rparr>;
               amountValue = parseFloat (InputPage.amount st)
           in if isNaN amountValue \<or> js_less_eq amountValue (Fin 0)
              then \<lparr> state = st1 \<lparr> InputPage.error := Some Enter_amount_correctly,
                                    InputPage.loading := False \<rparr>,
                     inserts = [], pushed = [] \<rparr>
              else
                (let values =
                       \<lparr> TransactionInsert.user_id = uid,
                         type = InputPage.transactionType st,
                         amount = amountValue,
                         category_id = 1,
                         memo = string_or_null (note st),
                         date = InputPage.date st \<rparr>
                 in case store_insert values of
                      Some insertError \<Rightarrow>
                        \<lparr> state = st1 \<lparr> InputPage.error := Some Registration_failed,
                                         InputPage.loading := False \<rparr>,
                          inserts = [values], pushed = [] \<rparr>
                    | None \<Rightarrow>
                        \<lparr> state = st1 \<lparr> InputPage.success := True,
                                         InputPage.amount := [],
                                         category := [],
                                         note := [],
                                         InputPage.date := today,
                                         InputPage.loading := False \<rparr>,
                          inserts = [values], pushed = [] \<rparr>)))"

subsection \<open>TransactionInputPage (src/unnamed/part_000)\<close>

record TransactionInputPage =
  user :: "string option"
  transactionType :: TransactionType
  date :: string
  amount :: string
  categoryId :: "int option"
  memo :: string
  loading :: bool
  error :: "message option"
  success :: bool

text \<open>
  \<open>handleSubmit\<close> of TransactionInputPage; \<open>today\<close> is
  \<open>format(new Date(), "yyyy-MM-dd")\<close>.
\<close>

definition TransactionInputPage_handleSubmit ::
  "(string \<Rightarrow> jsnum) \<Rightarrow> (TransactionInsert \<Rightarrow> string option) \<Rightarrow> string
     \<Rightarrow> TransactionInputPage \<Rightarrow> (TransactionInputPage, TransactionInsert) submitted" where
  "TransactionInputPage_handleSubmit parseFloat store_insert today st =
     (case TransactionInputPage.user st of
        None \<Rightarrow> \<lparr> state = st, inserts = [], pushed = [] \<rparr>
      | Some uid \<Rightarrow>
          (let st1 = st \<lparr> TransactionInputPage.loading := True,
                          TransactionInputPage.error := None,
                          TransactionInputPage.success := False \<rparr>;
               parsedAmount = parseFloat (TransactionInputPage.amount st)
           in if isNaN parsedAmount \<or> js_less parsedAmount (Fin 0)
              then \<lparr> state = st1 \<lparr> TransactionInputPage.error := Some Enter_amount_correctly,
                                    TransactionInputPage.loading := False \<rparr>,
                     inserts = [], pushed = [] \<rparr>
              else
                (case categoryId st of
                   None \<Rightarrow>
                     \<lparr> state = st1 \<lparr> TransactionInputPage.error := Some Select_category,
                                      TransactionInputPage.loading := False \<rparr>,
                       inserts = [], pushed = [] \<rparr>
                 | Some cid \<Rightarrow>
                     (let values =
                            \<lparr> TransactionInsert.user_id = uid,
                              type = TransactionInputPage.transactionType st,
                              amount = parsedAmount,
                              category_id = cid,
                              memo = string_or_null (TransactionInputPage.memo st),
                              date = TransactionInputPage.date st \<rparr>
                      in case store_insert values of
                           Some msg \<Rightarrow>
                             \<lparr> state = st1 \<lparr> TransactionInputPage.error := Some (Save_failed msg),
                                              TransactionInputPage.loading := False \<rparr>,
                               inserts = [values], pushed = [] \<rparr>
                         | None \<Rightarrow>
                             \<lparr> state = st1 \<lparr> TransactionInputPage.success := True,
                                              TransactionInputPage.amount := [],
                                              TransactionInputPage.memo := [],
                                              TransactionInputPage.date := today,
                                              TransactionInputPage.loading := False \<rparr>,
                               inserts = [values], pushed = [] \<rparr>))))"

subsection \<open>The new-goal form of GoalsPage (handleCreateGoal)\<close>

record NewGoal =
  goal_name :: string
  target_amount :: string
  deadline :: string

record GoalsPage =
  user :: "string option"
  newGoal :: NewGoal
  showNewGoalForm :: bool
  error :: "message option"
  success :: bool

text \<open>
  \<open>handleCreateGoal\<close>. After a successful insert the screen fetches the goals again;
  the fetch is not part of the result.
\<close>

definition handleCreateGoal ::
  "(string \<Rightarrow> jsnum) \<Rightarrow> (SavingsGoalInsert \<Rightarrow> string option) \<Rightarrow> GoalsPage
     \<Rightarrow> (GoalsPage, SavingsGoalInsert) submitted" where
  "handleCreateGoal parseFloat store_insert st =
     (case GoalsPage.user st of
        None \<Rightarrow> \<lparr> state = st, inserts = [], pushed = [] \<rparr>
      | Some uid \<Rightarrow>
          (let st1 = st \<lparr> GoalsPage.error := None \<rparr>;
               targetAmount = parseFloat (NewGoal.target_amount (newGoal st))
           in if isNaN targetAmount \<or> js_less_eq targetAmount (Fin 0)
              then \<lparr> state = st1 \<lparr> GoalsPage.error := Some Enter_target_correctly \<rparr>,
                     inserts = [], pushed = [] \<rparr>
              else
                (let values =
                       \<lparr> SavingsGoalInsert.user_id = uid,
                         goal_name = NewGoal.goal_name (newGoal st),
                         target_amount = targetAmount,
                         current_amount = Fin 0,
                         deadline = string_or_null (NewGoal.deadline (newGoal st)),
                         is_active = True \<rparr>
                 in case store_insert values of
                      Some insertError \<Rightarrow>
                        \<lparr> state = st1 \<lparr> GoalsPage.error := Some Goal_creation_failed \<rparr>,
                          inserts = [values], pushed = [] \<rparr>
                    | None \<Rightarrow>
                        \<lparr> state = st1 \<lparr> GoalsPage.success := True,
                                         newGoal := \<lparr> goal_name = [], target_amount = [],
                                                      deadline = [] \<rparr>,
                                         showNewGoalForm := False \<rparr>,
                          inserts = [values], pushed = [] \<rparr>)))"

subsection \<open>Sample inputs\<close>

text \<open>The values of \<open>parseFloat\<close> on the strings the examples type into a form.\<close>

definition parseFloat_sample :: "string \<Rightarrow> jsnum" where
  "parseFloat_sample s =
     (case map_of [(''0'', Fin 0), (''500'', Fin 500), (''120000'', Fin 120000),
                   (''-5'', Fin (- 5))] s of
        Some v \<Rightarrow> v
      | None \<Rightarrow> NaN)"

text \<open>
  The second option of \<open>expenseCategories\<close> (transport), as the bytes of its UTF-8
  encoding.
\<close>

definition transport_category :: string where
  "transport_category =
     [CHR 0xE4, CHR 0xBA, CHR 0xA4, CHR 0xE9, CHR 0x80, CHR 0x9A, CHR 0xE8, CHR 0xB2, CHR 0xBB]"

text \<open>A store that accepts every insert.\<close>

definition store_ok :: "'p \<Rightarrow> string option" where
  "store_ok p = None"

definition input_form :: "string \<Rightarrow> string \<Rightarrow> InputPage" where
  "input_form a c =
     \<lparr> InputPage.user = Some ''u1'', transactionType = Expense, amount = a, category = c,
       note = [], date = ''2024-06-01'', loading = False, error = None, success = False \<rparr>"

definition transaction_form :: "string \<Rightarrow> int option \<Rightarrow> TransactionInputPage" where
  "transaction_form a c =
     \<lparr> TransactionInputPage.user = Some ''u1'', transactionType = Income,
       date = ''2024-06-01'', amount = a, categoryId = c, memo = [],
       loading = False, error = None, success = False \<rparr>"

definition goal_form :: "string \<Rightarrow> string \<Rightarrow> GoalsPage" where
  "goal_form t d =
     \<lparr> user = Some ''u1'',
       newGoal = \<lparr> goal_name = ''trip'', target_amount = t, deadline = d \<rparr>,
       showNewGoalForm = True, error = None, success = False \<rparr>"

section \<open>Properties of the goal calculator\<close>

subsection \<open>The two halves of the calculation\<close>

lemma deadline_block_absent:
  "dl = None \<or> dl = Some [] \<or> (\<exists>s. dl = Some s \<and> new_Date lib s = None)
   \<Longrightarrow> deadline_block lib today dl t c = (None, None, Fin 0, None)"
  by (auto simp: deadline_block_def split: option.splits)

lemma deadline_block_parsed:
  "dl = Some s \<Longrightarrow> s \<noteq> [] \<Longrightarrow> new_Date lib s = Some d
   \<Longrightarrow> deadline_block lib today dl t c =
         (Some (differenceInMonths lib d today), Some (differenceInDays lib d today),
          (if differenceInMonths lib d today > 0
           then js_div (js_sub t c) (Fin (real_of_int (differenceInMonths lib d today)))
           else Fin 0),
          Some d)"
  by (simp add: deadline_block_def Let_def)

lemma progress_of_goalWithCalc:
  "progress_percentage (goalWithCalc lib today goal) =
     Math_min (if js_greater (number_or_zero (SavingsGoalInsert.target_amount goal)) (Fin 0)
               then js_mul (js_div (number_or_zero (SavingsGoalInsert.current_amount goal))
                                   (number_or_zero (SavingsGoalInsert.target_amount goal)))
                           (Fin 100)
               else Fin 0) (Fin 100)"
  by (simp add: goalWithCalc_def Let_def split: prod.splits)

lemma derived_of_goalWithCalc:
  "deadline_block lib today (SavingsGoalInsert.deadline goal)
       (number_or_zero (SavingsGoalInsert.target_amount goal))
       (number_or_zero (SavingsGoalInsert.current_amount goal)) = (m, d, r, v)
   \<Longrightarrow> months_remaining (goalWithCalc lib today goal) = m
     \<and> days_remaining (goalWithCalc lib today goal) = d
     \<and> monthly_required_amount (goalWithCalc lib today goal) = Math_max r (Fin 0)
     \<and> SavingsGoalInsert.deadline (goalWithCalc lib today goal) =
         Some (case v of Some x \<Rightarrow> take 10 (toISOString lib x)
                | None \<Rightarrow> string_or_empty (SavingsGoalInsert.deadline goal))"
  by (simp add: goalWithCalc_def Let_def)

subsection \<open>Progress percentage\<close>

text \<open>
  Claim C1 says that the progress percentage of every goal lies between 0 and 100
  whatever the magnitude or sign of the current amount. The calculator only caps the
  percentage from above: a goal with target 100 and current amount -50 gets -50.
\<close>

theorem progress_percentage_negative_counterexample:
  "\<not> (js_less_eq (Fin 0)
         (progress_percentage (goalWithCalc day_lib 60 (goal_row (Fin 100) (Fin (- 50)) None)))
      \<and> js_less_eq
         (progress_percentage (goalWithCalc day_lib 60 (goal_row (Fin 100) (Fin (- 50)) None)))
         (Fin 100))"
  by (simp add: progress_of_goalWithCalc goal_row_def number_or_zero_def js_truthy_def
      js_greater_def Math_min_def isNaN_def js_less_eq_def)

lemma number_or_zero_not_NaN: "number_or_zero v \<noteq> NaN"
  by (cases v) (simp_all add: number_or_zero_def js_truthy_def)

text \<open>
  The formula of the progress percentage stays between 0 and 100 outside two cases: a
  positive finite target with a negative current amount, and the target \<open>Infinity\<close>
  with an infinite current amount.
\<close>

lemma progress_formula_bounds:
  assumes "C \<noteq> NaN" and "T \<noteq> NaN"
    and "\<not> (js_greater T (Fin 0) \<and> T \<noteq> Infinity \<and> js_less C (Fin 0))"
    and "\<not> (T = Infinity \<and> (C = Infinity \<or> C = NegInfinity))"
  shows "js_less_eq (Fin 0)
           (Math_min (if js_greater T (Fin 0) then js_mul (js_div C T) (Fin 100) else Fin 0)
              (Fin 100))
       \<and> js_less_eq
           (Math_min (if js_greater T (Fin 0) then js_mul (js_div C T) (Fin 100) else Fin 0)
              (Fin 100))
           (Fin 100)"
  using assms
  by (cases T; cases C)
     (auto simp: js_greater_def Math_min_def isNaN_def js_less_eq_def signed_infinity_def
        split: if_splits)

text \<open>
  The second case is a failure of its own: with target and current amount both infinite
  the percentage is \<open>NaN\<close>. An infinite current amount alone is capped like any other.
\<close>

lemma progress_percentage_both_infinite:
  "progress_percentage (goalWithCalc day_lib 60 (goal_row Infinity Infinity None)) = NaN"
  by (simp add: progress_of_goalWithCalc goal_row_def number_or_zero_def js_truthy_def
      js_greater_def Math_min_def isNaN_def)

lemma progress_percentage_infinite_current:
  "progress_percentage (goalWithCalc day_lib 60 (goal_row (Fin 100) Infinity None)) = Fin 100"
  by (simp add: progress_of_goalWithCalc goal_row_def number_or_zero_def js_truthy_def
      js_greater_def Math_min_def isNaN_def signed_infinity_def)

text \<open>
  Claim C1, amended. With \<open>T\<close> and \<open>C\<close> the coerced target and current amount of a
  goal: the progress percentage is \<open>Math.min(C / T * 100, 100)\<close> when \<open>T > 0\<close> and
  \<open>0\<close> otherwise; it lies between 0 and 100, whatever the magnitude of the current
  amount, unless the target is positive and finite and the current amount negative, or
  the target is \<open>Infinity\<close> and the current amount infinite too; and when both amounts are
  finite it is the finite number \<open>min (c / t * 100) 100\<close>, or \<open>0\<close>, and at most 100
  whatever the sign of the current amount.
\<close>

theorem progress_percentage_bounds:
  assumes "number_or_zero (SavingsGoalInsert.target_amount goal) = T"
    and "number_or_zero (SavingsGoalInsert.current_amount goal) = C"
  shows "progress_percentage (goalWithCalc lib today goal) =
           Math_min (if js_greater T (Fin 0) then js_mul (js_div C T) (Fin 100) else Fin 0)
             (Fin 100)
     \<and> (\<not> js_greater T (Fin 0) \<longrightarrow> progress_percentage (goalWithCalc lib today goal) = Fin 0)
     \<and> (\<not> (js_greater T (Fin 0) \<and> T \<noteq> Infinity \<and> js_less C (Fin 0))
          \<longrightarrow> \<not> (T = Infinity \<and> (C = Infinity \<or> C = NegInfinity))
          \<longrightarrow> js_less_eq (Fin 0) (progress_percentage (goalWithCalc lib today goal))
              \<and> js_less_eq (progress_percentage (goalWithCalc lib today goal)) (Fin 100))
     \<and> (T = Fin t \<longrightarrow> C = Fin c
          \<longrightarrow> progress_percentage (goalWithCalc lib today goal)
                = Fin (if 0 < t then min (c / t * 100) 100 else 0)
              \<and> js_less_eq (progress_percentage (goalWithCalc lib today goal)) (Fin 100))"
proof -
  have T: "T \<noteq> NaN" and C: "C \<noteq> NaN"
    using assms number_or_zero_not_NaN by blast+
  have formula: "progress_percentage (goalWithCalc lib today goal) =
           Math_min (if js_greater T (Fin 0) then js_mul (js_div C T) (Fin 100) else Fin 0)
             (Fin 100)"
    using assms by (simp add: progress_of_goalWithCalc)
  have zero: "\<not> js_greater T (Fin 0)
          \<longrightarrow> progress_percentage (goalWithCalc lib today goal) = Fin 0"
    by (simp add: formula Math_min_def isNaN_def)
  have bounds: "\<not> (js_greater T (Fin 0) \<and> T \<noteq> Infinity \<and> js_less C (Fin 0))
          \<longrightarrow> \<not> (T = Infinity \<and> (C = Infinity \<or> C = NegInfinity))
          \<longrightarrow> js_less_eq (Fin 0) (progress_percentage (goalWithCalc lib today goal))
              \<and> js_less_eq (progress_percentage (goalWithCalc lib today goal)) (Fin 100)"
    unfolding formula using progress_formula_bounds [OF C T] by blast
  have finite: "T = Fin t \<longrightarrow> C = Fin c
          \<longrightarrow> progress_percentage (goalWithCalc lib today goal)
                = Fin (if 0 < t then min (c / t * 100) 100 else 0)
              \<and> js_less_eq (progress_percentage (goalWithCalc lib today goal)) (Fin 100)"
    by (auto simp: formula js_greater_def Math_min_def isNaN_def js_less_eq_def min_def)
  show ?thesis
    using formula zero bounds finite by blast
qed

text \<open>A goal saved beyond its target (80000 of 50000) shows 100.\<close>

theorem progress_percentage_bounds_witness:
  "number_or_zero (SavingsGoalInsert.target_amount (goal_row (Fin 50000) (Fin 80000) None))
     = Fin 50000
   \<and> number_or_zero (SavingsGoalInsert.current_amount (goal_row (Fin 50000) (Fin 80000) None))
     = Fin 80000
   \<and> \<not> js_less (Fin 80000) (Fin 0)
   \<and> progress_percentage (goalWithCalc day_lib 60 (goal_row (Fin 50000) (Fin 80000) None))
     = Fin 100
   \<and> js_less_eq (Fin 0)
       (progress_percentage (goalWithCalc day_lib 60 (goal_row (Fin 50000) (Fin 80000) None)))
   \<and> js_less_eq
       (progress_percentage (goalWithCalc day_lib 60 (goal_row (Fin 50000) (Fin 80000) None)))
       (Fin 100)"
proof -
  have T: "number_or_zero (SavingsGoalInsert.target_amount (goal_row (Fin 50000) (Fin 80000) None))
     = Fin 50000"
    by (simp add: goal_row_def number_or_zero_def js_truthy_def)
  have C: "number_or_zero (SavingsGoalInsert.current_amount (goal_row (Fin 50000) (Fin 80000) None))
     = Fin 80000"
    by (simp add: goal_row_def number_or_zero_def js_truthy_def)
  note all = progress_percentage_bounds [OF T C, of day_lib 60 50000 80000]
  from all [THEN conjunct2, THEN conjunct2, THEN conjunct2]
  have percent: "progress_percentage
       (goalWithCalc day_lib 60 (goal_row (Fin 50000) (Fin 80000) None)) = Fin 100"
    by simp
  from all [THEN conjunct2, THEN conjunct2, THEN conjunct1]
  have "js_less_eq (Fin 0)
         (progress_percentage (goalWithCalc day_lib 60 (goal_row (Fin 50000) (Fin 80000) None)))
      \<and> js_less_eq
         (progress_percentage (goalWithCalc day_lib 60 (goal_row (Fin 50000) (Fin 80000) None)))
         (Fin 100)"
    by simp
  then show ?thesis
    using T C percent by simp
qed

text \<open>
  Claim C4: a goal whose target is 0, or is not a number and so coerced to 0, has
  progress exactly 0; the division is not evaluated, so the result is a finite number.
\<close>

theorem zero_target_progress:
  assumes "number_or_zero (SavingsGoalInsert.target_amount goal) = Fin 0"
  shows "progress_percentage (goalWithCalc lib today goal) = Fin 0"
  using assms
  by (simp add: progress_of_goalWithCalc js_greater_def Math_min_def isNaN_def)

text \<open>A target of 0 and a target that is not a number, both with 50 saved.\<close>

theorem zero_target_progress_witness:
  "number_or_zero (SavingsGoalInsert.target_amount (goal_row (Fin 0) (Fin 50) None)) = Fin 0
   \<and> progress_percentage (goalWithCalc day_lib 60 (goal_row (Fin 0) (Fin 50) None)) = Fin 0
   \<and> number_or_zero (SavingsGoalInsert.target_amount (goal_row NaN (Fin 50) None)) = Fin 0
   \<and> progress_percentage (goalWithCalc day_lib 60 (goal_row NaN (Fin 50) None)) = Fin 0"
  using zero_target_progress [of "goal_row (Fin 0) (Fin 50) None" day_lib 60]
    zero_target_progress [of "goal_row NaN (Fin 50) None" day_lib 60]
  by (simp add: goal_row_def number_or_zero_def js_truthy_def)

subsection \<open>Deadline and monthly amount\<close>

text \<open>
  Claim C2: for every goal whose deadline parses, with \<open>m\<close> the months remaining: when
  \<open>m \<le> 0\<close> the monthly required amount is 0; when \<open>m > 0\<close> it is
  \<open>Math.max((target - current) / m, 0)\<close>, which for finite amounts \<open>t\<close> and \<open>c\<close> is
  the finite number \<open>max ((t - c) / m) 0\<close>.
\<close>

theorem monthly_required_amount_by_months:
  assumes "SavingsGoalInsert.deadline goal = Some s" and "s \<noteq> []"
    and "new_Date lib s = Some d" and "differenceInMonths lib d today = m"
  shows "months_remaining (goalWithCalc lib today goal) = Some m
     \<and> (m \<le> 0 \<longrightarrow> monthly_required_amount (goalWithCalc lib today goal) = Fin 0)
     \<and> (0 < m \<longrightarrow> monthly_required_amount (goalWithCalc lib today goal) =
           Math_max (js_div (js_sub (number_or_zero (SavingsGoalInsert.target_amount goal))
                                    (number_or_zero (SavingsGoalInsert.current_amount goal)))
                            (Fin (real_of_int m))) (Fin 0))
     \<and> (0 < m \<longrightarrow> number_or_zero (SavingsGoalInsert.target_amount goal) = Fin t
           \<longrightarrow> number_or_zero (SavingsGoalInsert.current_amount goal) = Fin c
           \<longrightarrow> monthly_required_amount (goalWithCalc lib today goal) =
                 Fin (max ((t - c) / real_of_int m) 0))"
proof -
  note blk = deadline_block_parsed [OF assms(1,2,3), of today
      "number_or_zero (SavingsGoalInsert.target_amount goal)"
      "number_or_zero (SavingsGoalInsert.current_amount goal)"]
  note out = derived_of_goalWithCalc [OF blk]
  show ?thesis
    using out assms(4)
    by (auto simp: Math_max_def isNaN_def js_sub_def max_def)
qed

text \<open>
  A deadline three months in the past, and one nine months ahead with 90000 still to
  save.
\<close>

theorem monthly_required_amount_by_months_witness:
  "months_remaining (goalWithCalc day_lib 166
       (goal_row (Fin 120000) (Fin 30000) (Some ''2024-03-01''))) = Some (- 3)
   \<and> monthly_required_amount (goalWithCalc day_lib 166
       (goal_row (Fin 120000) (Fin 30000) (Some ''2024-03-01''))) = Fin 0
   \<and> months_remaining (goalWithCalc day_lib 60
       (goal_row (Fin 120000) (Fin 30000) (Some ''2024-12-12''))) = Some 9
   \<and> monthly_required_amount (goalWithCalc day_lib 60
       (goal_row (Fin 120000) (Fin 30000) (Some ''2024-12-12''))) = Fin 10000"
  using monthly_required_amount_by_months
      [of "goal_row (Fin 120000) (Fin 30000) (Some ''2024-03-01'')" "''2024-03-01''"
          day_lib 60 166 "- 3" 120000 30000]
    monthly_required_amount_by_months
      [of "goal_row (Fin 120000) (Fin 30000) (Some ''2024-12-12'')" "''2024-12-12''"
          day_lib 346 60 9 120000 30000]
  by (simp add: goal_row_def day_lib_def known_dates_def number_or_zero_def js_truthy_def
      Math_max_def isNaN_def js_sub_def)

text \<open>
  Claim C3: for every goal whose deadline is absent (\<open>null\<close> or the empty string) or
  does not parse, the months and days remaining are \<open>null\<close> and the monthly required
  amount is 0.
\<close>

theorem no_deadline_derived_fields:
  assumes "SavingsGoalInsert.deadline goal = None
           \<or> SavingsGoalInsert.deadline goal = Some []
           \<or> (\<exists>s. SavingsGoalInsert.deadline goal = Some s \<and> new_Date lib s = None)"
  shows "months_remaining (goalWithCalc lib today goal) = None
     \<and> days_remaining (goalWithCalc lib today goal) = None
     \<and> monthly_required_amount (goalWithCalc lib today goal) = Fin 0"
  using derived_of_goalWithCalc [OF deadline_block_absent [OF assms]]
  by (simp add: Math_max_def isNaN_def)

text \<open>A goal without deadline, and one whose deadline names a thirteenth month.\<close>

theorem no_deadline_derived_fields_witness:
  "SavingsGoalInsert.deadline (goal_row (Fin 50000) (Fin 50000) None) = None
   \<and> months_remaining (goalWithCalc day_lib 60 (goal_row (Fin 50000) (Fin 50000) None)) = None
   \<and> days_remaining (goalWithCalc day_lib 60 (goal_row (Fin 50000) (Fin 50000) None)) = None
   \<and> monthly_required_amount (goalWithCalc day_lib 60 (goal_row (Fin 50000) (Fin 50000) None))
       = Fin 0
   \<and> new_Date day_lib ''2024-13-01'' = None
   \<and> months_remaining (goalWithCalc day_lib 60
       (goal_row (Fin 50000) (Fin 20000) (Some ''2024-13-01''))) = None
   \<and> monthly_required_amount (goalWithCalc day_lib 60
       (goal_row (Fin 50000) (Fin 20000) (Some ''2024-13-01''))) = Fin 0"
  using no_deadline_derived_fields [of "goal_row (Fin 50000) (Fin 50000) None" day_lib 60]
    no_deadline_derived_fields
      [of "goal_row (Fin 50000) (Fin 20000) (Some ''2024-13-01'')" day_lib 60]
  by (simp add: goal_row_def day_lib_def known_dates_def)

text \<open>
  Claim C9: for every goal whose stored deadline is a string that does not parse, the
  derived record still carries that string as its deadline, while the months and days
  remaining are \<open>null\<close>.
\<close>

theorem unparseable_deadline_kept:
  assumes "SavingsGoalInsert.deadline goal = Some s" and "new_Date lib s = None"
  shows "SavingsGoalInsert.deadline (goalWithCalc lib today goal) = Some s
     \<and> months_remaining (goalWithCalc lib today goal) = None
     \<and> days_remaining (goalWithCalc lib today goal) = None"
proof -
  have "SavingsGoalInsert.deadline goal = None
        \<or> SavingsGoalInsert.deadline goal = Some []
        \<or> (\<exists>s. SavingsGoalInsert.deadline goal = Some s \<and> new_Date lib s = None)"
    using assms by blast
  from derived_of_goalWithCalc [OF deadline_block_absent [OF this]] assms(1)
  show ?thesis by (simp add: string_or_empty_def)
qed

theorem unparseable_deadline_kept_witness:
  "SavingsGoalInsert.deadline (goal_row (Fin 50000) (Fin 20000) (Some ''next spring''))
     = Some ''next spring''
   \<and> new_Date day_lib ''next spring'' = None
   \<and> SavingsGoalInsert.deadline (goalWithCalc day_lib 60
       (goal_row (Fin 50000) (Fin 20000) (Some ''next spring''))) = Some ''next spring''
   \<and> days_remaining (goalWithCalc day_lib 60
       (goal_row (Fin 50000) (Fin 20000) (Some ''next spring''))) = None"
  using unparseable_deadline_kept
      [of "goal_row (Fin 50000) (Fin 20000) (Some ''next spring'')" "''next spring''" day_lib 60]
  by (simp add: goal_row_def day_lib_def known_dates_def)

section \<open>Properties of the rounding\<close>

text \<open>Rules to evaluate a rounding at given numerals.\<close>

lemma bitlen_numeral: "bitlen (numeral n) = bitlen (numeral n div 2) + 1"
  by (subst compute_bitlen) simp

lemma bitlen_one: "bitlen 1 = 1"
  by (subst compute_bitlen) simp

lemmas binary64_eval = binary64_def binade_def pow2_def round_half_even_def Let_def
  bitlen_numeral bitlen_one

lemma of_int_le_power2: "(n::int) \<le> 2 ^ k \<Longrightarrow> real_of_int n \<le> 2 ^ k"
proof -
  assume "n \<le> 2 ^ k"
  then have "real_of_int n \<le> real_of_int (2 ^ k)" by (simp only: of_int_le_iff)
  then show ?thesis by simp
qed

lemma power2_le_of_int: "2 ^ k \<le> (n::int) \<Longrightarrow> 2 ^ k \<le> real_of_int n"
proof -
  assume "2 ^ k \<le> n"
  then have "real_of_int (2 ^ k) \<le> real_of_int n" by (simp only: of_int_le_iff)
  then show ?thesis by simp
qed

text \<open>The binade of a positive number is the exponent of the power of two below it.\<close>

lemma binade_bounds:
  assumes "0 < a"
  shows "pow2 (binade a) \<le> a \<and> a < pow2 (binade a + 1)"
proof (cases "1 \<le> a")
  case True
  define n where "n = \<lfloor>a\<rfloor>"
  have n: "0 < n" using True by (simp add: n_def)
  then have len: "1 \<le> bitlen n"
    using bitlen_eq_zero_iff [of n] bitlen_nonneg [of n] by linarith
  have b: "binade a = bitlen n - 1"
    using True by (simp add: binade_def n_def)
  from bitlen_bounds [OF n] have lo: "2 ^ nat (bitlen n - 1) \<le> n" and hi: "n < 2 ^ nat (bitlen n)"
    by simp_all
  have "2 ^ nat (bitlen n - 1) \<le> real_of_int n"
    using lo by (rule power2_le_of_int)
  also have "\<dots> \<le> a" by (simp add: n_def)
  finally have 1: "pow2 (binade a) \<le> a"
    using len by (simp add: b pow2_def)
  have "n + 1 \<le> 2 ^ nat (bitlen n)" using hi by simp
  then have "real_of_int (n + 1) \<le> 2 ^ nat (bitlen n)"
    by (rule of_int_le_power2)
  moreover have "a < real_of_int (n + 1)" unfolding n_def by linarith
  ultimately have "a < 2 ^ nat (bitlen n)" by linarith
  then have 2: "a < pow2 (binade a + 1)"
    using len by (simp add: b pow2_def)
  show ?thesis using 1 2 ..
next
  case False
  define c where "c = \<lceil>1 / a\<rceil>"
  have gt: "1 < 1 / a" using False assms by simp
  then have c2: "2 \<le> c" unfolding c_def by (simp add: le_ceiling_iff)
  then have n: "0 < c - 1" by simp
  define k where "k = bitlen (c - 1)"
  have k1: "1 \<le> k"
    using n bitlen_eq_zero_iff [of "c - 1"] bitlen_nonneg [of "c - 1"] unfolding k_def by linarith
  have b: "binade a = - k"
    using False by (simp add: binade_def c_def k_def)
  from bitlen_bounds [OF n] have lo: "2 ^ nat (k - 1) \<le> c - 1" and hi: "c - 1 < 2 ^ nat k"
    by (simp_all add: k_def)
  have "real_of_int (c - 1) < 1 / a"
    unfolding c_def by linarith
  moreover have "2 ^ nat (k - 1) \<le> real_of_int (c - 1)"
    using lo by (rule power2_le_of_int)
  ultimately have lower: "2 ^ nat (k - 1) < 1 / a" by linarith
  have "c \<le> 2 ^ nat k" using hi by simp
  then have "real_of_int c \<le> 2 ^ nat k" by (rule of_int_le_power2)
  moreover have "1 / a \<le> real_of_int c" unfolding c_def by linarith
  ultimately have upper: "1 / a \<le> 2 ^ nat k" by linarith
  have 1: "pow2 (binade a) \<le> a"
  proof -
    have "1 \<le> a * 2 ^ nat k"
      using upper assms by (simp add: field_simps)
    then have "1 / 2 ^ nat k \<le> a"
      by (simp add: field_simps)
    then show ?thesis using k1 by (simp add: b pow2_def)
  qed
  have 2: "a < pow2 (binade a + 1)"
  proof -
    have "a * 2 ^ nat (k - 1) < 1"
      using lower assms by (simp add: field_simps)
    then have "a < 1 / 2 ^ nat (k - 1)"
      by (simp add: field_simps)
    moreover have "pow2 (- k + 1) = 1 / 2 ^ nat (k - 1)"
      using k1 by (cases "k = 1") (simp_all add: pow2_def)
    ultimately show ?thesis by (simp add: b)
  qed
  show ?thesis using 1 2 ..
qed

lemma magnitude_Fin [simp]: "magnitude (Fin r) = \<bar>r\<bar>"
  by (simp add: magnitude_def)

lemma finite_value_Fin [simp]: "finite_value (Fin r) = r"
  by (simp add: finite_value_def)

lemma whole_Fin: "whole (Fin r) \<longleftrightarrow> r = of_int \<lfloor>r\<rfloor>"
  by (simp add: whole_def)

lemma whole_cases: "whole a \<Longrightarrow> \<exists>n. a = Fin (of_int n)"
  by (cases a) (auto simp: whole_def)

lemma magnitude_nonneg: "0 \<le> magnitude a"
  by (cases a) (simp_all add: magnitude_def)

lemma round_half_even_of_int [simp]: "round_half_even (of_int m) = m"
  by (simp add: round_half_even_def)

lemma pow2_pos: "0 < pow2 e"
  by (simp add: pow2_def)

text \<open>A number that is a whole multiple of the spacing of its binade is a double.\<close>

lemma binary64_exact:
  assumes "x \<noteq> 0" and "\<bar>x\<bar> / pow2 (max (binade \<bar>x\<bar>) (- 1022) - 52) = of_int m"
    and "\<bar>x\<bar> < pow2 1024"
  shows "binary64 x = Fin x"
proof -
  let ?q = "pow2 (max (binade \<bar>x\<bar>) (- 1022) - 52)"
  have q: "0 < ?q" by (rule pow2_pos)
  have "of_int m * ?q = \<bar>x\<bar>"
    using assms(2) q by (simp add: field_simps)
  then show ?thesis
    using assms by (auto simp: binary64_def Let_def)
qed

lemma binary64_of_pos_int:
  assumes "0 < n" and "n \<le> 2 ^ 53"
  shows "binary64 (of_int n) = Fin (of_int n)"
proof -
  define e where "e = bitlen n - 1"
  have e0: "0 \<le> e"
    using assms(1) bitlen_eq_zero_iff [of n] bitlen_nonneg [of n] by (simp add: e_def)
  have lo: "2 ^ nat e \<le> n"
    using bitlen_bounds [OF assms(1)] by (simp add: e_def)
  have "(2::int) ^ nat e \<le> 2 ^ 53"
    using lo assms(2) by (rule order_trans)
  then have e53: "nat e \<le> 53"
    by (rule power_le_imp_le_exp [rotated]) simp
  have bin: "max (binade \<bar>of_int n\<bar>) (- 1022) = e"
    using assms(1) e0 by (simp add: binade_def e_def)
  have big: "\<bar>real_of_int n\<bar> < pow2 1024"
  proof -
    have "real_of_int n \<le> 2 ^ 53"
      using assms(2) by (metis of_int_le_iff of_int_numeral of_int_power)
    also have "\<dots> < (2::real) ^ 1024"
      by (rule power_strict_increasing) simp_all
    finally show ?thesis
      using assms(1) by (simp add: pow2_def)
  qed
  have "\<exists>m. \<bar>real_of_int n\<bar> / pow2 (e - 52) = of_int m"
  proof (cases "e \<le> 52")
    case True
    then have "pow2 (e - 52) = 1 / 2 ^ nat (52 - e)"
      by (cases "e = 52") (simp_all add: pow2_def)
    then have "\<bar>real_of_int n\<bar> / pow2 (e - 52) = of_int (n * 2 ^ nat (52 - e))"
      using assms(1) by simp
    then show ?thesis ..
  next
    case False
    then have e: "e = 53"
      using e53 e0 by linarith
    then have "n = 2 ^ 53"
      using lo assms(2) by simp
    then have "\<bar>real_of_int n\<bar> / pow2 (e - 52) = of_int (2 ^ 52)"
      using e by (simp add: pow2_def)
    then show ?thesis ..
  qed
  then obtain m where
    "\<bar>real_of_int n\<bar> / pow2 (max (binade \<bar>of_int n\<bar>) (- 1022) - 52) = of_int m"
    using bin by auto
  from binary64_exact [OF _ this big] assms(1) show ?thesis
    by simp
qed

lemma binary64_minus: "binary64 (- x) = js_neg (binary64 x)"
  by (simp add: binary64_def Let_def)

text \<open>Every whole number up to \<open>2 ^ 53\<close> in absolute value is a double.\<close>

lemma binary64_of_int:
  assumes "\<bar>n\<bar> \<le> 2 ^ 53"
  shows "binary64 (of_int n) = Fin (of_int n)"
proof -
  consider "n = 0" | "0 < n" | "n < 0" by linarith
  then show ?thesis
  proof cases
    case 1
    then show ?thesis by (simp add: binary64_def)
  next
    case 2
    then show ?thesis using assms by (simp add: binary64_of_pos_int)
  next
    case 3
    then have "binary64 (of_int (- n)) = Fin (of_int (- n))"
      using assms by (intro binary64_of_pos_int) simp_all
    then have "js_neg (binary64 (of_int n)) = Fin (- of_int n)"
      by (simp add: binary64_minus)
    then show ?thesis
      by (cases "binary64 (real_of_int n)") simp_all
  qed
qed

text \<open>Adding whole amounts one after the other is exact while the total stays in range.\<close>

lemma foldl_binary64_add_whole:
  assumes "list_all whole as" and "whole s"
    and "magnitude s + sum_list (map magnitude as) \<le> 2 ^ 53"
  shows "foldl binary64_add s as = Fin (finite_value s + sum_list (map finite_value as))"
  using assms
proof (induction as arbitrary: s)
  case Nil
  then show ?case by (auto dest: whole_cases)
next
  case (Cons a as)
  from Cons.prems obtain m n where s: "s = Fin (of_int m)" and a: "a = Fin (of_int n)"
    by (auto dest!: whole_cases)
  have nonneg: "0 \<le> sum_list (map magnitude as)"
    by (rule sum_list_nonneg) (auto simp: magnitude_nonneg)
  have bound: "\<bar>real_of_int m\<bar> + \<bar>real_of_int n\<bar> + sum_list (map magnitude as) \<le> 2 ^ 53"
    using Cons.prems(3) by (simp add: s a)
  have "\<bar>real_of_int (m + n)\<bar> \<le> 2 ^ 53"
    using bound nonneg by simp
  then have "\<bar>m + n\<bar> \<le> 2 ^ 53"
    by (metis of_int_abs of_int_le_iff of_int_numeral of_int_power)
  then have add: "binary64_add s a = Fin (of_int (m + n))"
    using binary64_of_int [of "m + n"] by (simp add: s a)
  have whole': "whole (Fin (of_int (m + n)))"
    by (simp add: whole_Fin)
  have mag': "magnitude (Fin (of_int (m + n))) + sum_list (map magnitude as) \<le> 2 ^ 53"
    using bound by simp
  have "foldl binary64_add s (a # as) = foldl binary64_add (Fin (of_int (m + n))) as"
    by (simp only: foldl_Cons add)
  also have "\<dots> = Fin (finite_value (Fin (of_int (m + n))) + sum_list (map finite_value as))"
    using Cons.IH [OF _ whole' mag'] Cons.prems(1) by simp
  also have "\<dots> = Fin (finite_value s + sum_list (map finite_value (a # as)))"
    by (simp add: s a)
  finally show ?case .
qed

lemma sum_list_filter_le:
  fixes f :: "'a \<Rightarrow> real"
  assumes "\<And>x. 0 \<le> f x"
  shows "sum_list (map f (filter P xs)) \<le> sum_list (map f xs)"
proof (induction xs)
  case Nil
  show ?case by simp
next
  case (Cons x xs)
  then show ?case
    using assms [of x] by simp
qed

lemma sum_list_map_mset:
  fixes f :: "'a \<Rightarrow> real"
  assumes "mset xs = mset ys"
  shows "sum_list (map f (filter P xs)) = sum_list (map f (filter P ys))"
proof -
  have "mset (map f (filter P xs)) = mset (map f (filter P ys))"
    using assms by simp
  then have "sum_mset (mset (map f (filter P xs))) = sum_mset (mset (map f (filter P ys)))"
    by (rule arg_cong)
  then show ?thesis
    by (simp only: sum_mset_sum_list)
qed

section \<open>Properties of the daily totals\<close>

lemma amount_on_Nil [simp]: "amount_on ty d [] = Fin 0"
  by (simp add: amount_on_def)

lemma amount_on_snoc:
  "amount_on ty d (txs @ [tx]) =
     (if Transaction.date tx = d \<and> Transaction.type tx = ty
      then binary64_add (amount_on ty d txs) (Transaction.amount tx)
      else amount_on ty d txs)"
  by (simp add: amount_on_def)

lemma amount_on_no_date:
  "d \<notin> Transaction.date ` set txs \<Longrightarrow> amount_on ty d txs = Fin 0"
proof -
  assume "d \<notin> Transaction.date ` set txs"
  then have "filter (\<lambda>tx. Transaction.date tx = d \<and> Transaction.type tx = ty) txs = []"
    by (auto simp: filter_empty_conv)
  then show ?thesis
    by (simp add: amount_on_def)
qed

text \<open>One step of the loop, seen through \<open>totals.get\<close>.\<close>

lemma map_of_accumulate:
  "map_of (accumulate totals tx) d =
     (if d = Transaction.date tx
      then Some (let existing = (case map_of totals d of
                                   Some e \<Rightarrow> e
                                 | None \<Rightarrow> \<lparr> income = Fin 0, expense = Fin 0, net = Fin 0 \<rparr>);
                     existing1 =
                       (if Transaction.type tx = Income
                        then existing \<lparr> income := binary64_add (income existing) (Transaction.amount tx) \<rparr>
                        else existing \<lparr> expense := binary64_add (expense existing) (Transaction.amount tx) \<rparr>)
                 in existing1 \<lparr> net := binary64_sub (income existing1) (expense existing1) \<rparr>)
      else map_of totals d)"
  by (simp add: accumulate_def Let_def update_conv')

lemma dailyTotals_snoc: "dailyTotals (txs @ [tx]) = accumulate (dailyTotals txs) tx"
  by (simp add: dailyTotals_def)

text \<open>The loop invariant: after any prefix, every bucket holds the sums of its date.\<close>

lemma map_of_dailyTotals:
  "map_of (dailyTotals txs) d =
     (if d \<in> Transaction.date ` set txs then Some (bucket_of_date d txs) else None)"
proof (induction txs rule: rev_induct)
  case Nil
  show ?case by (simp add: dailyTotals_def)
next
  case (snoc tx txs)
  show ?case
  proof (cases "d = Transaction.date tx")
    case False
    then show ?thesis
      using snoc
      by (auto simp: dailyTotals_snoc map_of_accumulate bucket_of_date_def amount_on_snoc)
  next
    case True
    show ?thesis
    proof (cases "d \<in> Transaction.date ` set txs")
      case seen: True
      then show ?thesis
        using snoc True
        by (cases "Transaction.type tx")
           (simp_all add: dailyTotals_snoc map_of_accumulate bucket_of_date_def
              amount_on_snoc Let_def)
    next
      case fresh: False
      then show ?thesis
        using snoc True
        by (cases "Transaction.type tx")
           (simp_all add: dailyTotals_snoc map_of_accumulate bucket_of_date_def
              amount_on_snoc Let_def amount_on_no_date)
    qed
  qed
qed

text \<open>
  Claim C5: for every transaction list, the daily aggregation holds, for each date that
  occurs in the list, a bucket whose income is the sum of the income amounts of that
  date, whose expense is the sum of its expense amounts (each sum as the loop runs it,
  amount after amount) and whose net is income minus expense; a date that does not
  occur has no bucket; a transaction changes the bucket of its own date only; and the
  three transactions of the scenario give the two buckets 1000/300/700 and 0/200/-200.
\<close>

theorem dailyTotals_per_date:
  "(d \<in> Transaction.date ` set txs \<longrightarrow>
      map_of (dailyTotals txs) d =
        Some \<lparr> income = amount_on Income d txs,
               expense = amount_on Expense d txs,
               net = binary64_sub (amount_on Income d txs) (amount_on Expense d txs) \<rparr>)
   \<and> (d \<notin> Transaction.date ` set txs \<longrightarrow> map_of (dailyTotals txs) d = None)
   \<and> (d \<noteq> Transaction.date tx \<longrightarrow>
        map_of (dailyTotals (txs @ [tx])) d = map_of (dailyTotals txs) d)
   \<and> dailyTotals june_txs =
       [(''2024-06-01'', \<lparr> income = Fin 1000, expense = Fin 300, net = Fin 700 \<rparr>),
        (''2024-06-02'', \<lparr> income = Fin 0, expense = Fin 200, net = Fin (- 200) \<rparr>)]"
proof -
  have scenario: "dailyTotals june_txs =
       [(''2024-06-01'', \<lparr> income = Fin 1000, expense = Fin 300, net = Fin 700 \<rparr>),
        (''2024-06-02'', \<lparr> income = Fin 0, expense = Fin 200, net = Fin (- 200) \<rparr>)]"
    by (simp add: june_txs_def dailyTotals_def accumulate_def tx_row_def binary64_sub_def
        binary64_eval)
  have step: "d \<noteq> Transaction.date tx \<longrightarrow>
        map_of (dailyTotals (txs @ [tx])) d = map_of (dailyTotals txs) d"
    by (simp add: dailyTotals_snoc map_of_accumulate)
  show ?thesis
    using scenario step by (simp add: map_of_dailyTotals bucket_of_date_def)
qed

text \<open>The bucket of 2024-06-01 in the scenario, read off the general statement.\<close>

theorem dailyTotals_per_date_witness:
  "''2024-06-01'' \<in> Transaction.date ` set june_txs
   \<and> map_of (dailyTotals june_txs) ''2024-06-01'' =
       Some \<lparr> income = Fin 1000, expense = Fin 300, net = Fin 700 \<rparr>
   \<and> ''2024-06-03'' \<notin> Transaction.date ` set june_txs
   \<and> map_of (dailyTotals june_txs) ''2024-06-03'' = None"
  using dailyTotals_per_date [of "''2024-06-01''" june_txs]
    dailyTotals_per_date [of "''2024-06-03''" june_txs]
  by (simp add: june_txs_def tx_row_def amount_on_def binary64_sub_def binary64_eval)

text \<open>
  With whole amounts whose magnitudes add up to at most \<open>2 ^ 53\<close>, the running sum of
  one type on one date is the exact sum.
\<close>

lemma amount_on_whole:
  assumes "list_all (\<lambda>tx. whole (Transaction.amount tx)) txs"
    and "sum_list (map (\<lambda>tx. magnitude (Transaction.amount tx)) txs) \<le> 2 ^ 53"
  shows "amount_on ty d txs =
     Fin (sum_list (map (\<lambda>tx. finite_value (Transaction.amount tx))
            (filter (\<lambda>tx. Transaction.date tx = d \<and> Transaction.type tx = ty) txs)))"
proof -
  let ?P = "\<lambda>tx. Transaction.date tx = d \<and> Transaction.type tx = ty"
  let ?as = "map Transaction.amount (filter ?P txs)"
  have all: "list_all whole ?as"
    using assms(1) by (auto simp: list_all_iff)
  have "sum_list (map magnitude ?as)
        = sum_list (map (\<lambda>tx. magnitude (Transaction.amount tx)) (filter ?P txs))"
    by (simp add: comp_def)
  also have "\<dots> \<le> sum_list (map (\<lambda>tx. magnitude (Transaction.amount tx)) txs)"
    by (rule sum_list_filter_le) (rule magnitude_nonneg)
  finally have bound: "magnitude (Fin 0) + sum_list (map magnitude ?as) \<le> 2 ^ 53"
    using assms(2) by simp
  have "foldl binary64_add (Fin 0) ?as = Fin (finite_value (Fin 0) + sum_list (map finite_value ?as))"
    by (rule foldl_binary64_add_whole [OF all _ bound]) (simp add: whole_Fin)
  then show ?thesis
    by (simp add: amount_on_def comp_def)
qed

text \<open>
  Claim C6 says that the daily aggregation gives every date the same sums for every
  permutation of the list. The loop adds doubles, and the rounding of a sum depends on
  the order: three incomes of 0.1, 0.2 and 0.3 on one day add up to
  0.6000000000000001 in this order and to 0.6 in the reverse order.
\<close>

lemma dailyTotals_decimal_txs:
  "dailyTotals decimal_txs =
     [(''2024-06-01'',
       \<lparr> income = Fin (5404319552844596 / 9007199254740992), expense = Fin 0,
         net = Fin (5404319552844596 / 9007199254740992) \<rparr>)]"
  by (simp add: decimal_txs_def dailyTotals_def accumulate_def tx_row_def binary64_sub_def
      binary64_eval)

lemma dailyTotals_decimal_txs_reordered:
  "dailyTotals decimal_txs_reordered =
     [(''2024-06-01'',
       \<lparr> income = Fin (5404319552844595 / 9007199254740992), expense = Fin 0,
         net = Fin (5404319552844595 / 9007199254740992) \<rparr>)]"
  by (simp add: decimal_txs_reordered_def dailyTotals_def accumulate_def tx_row_def
      binary64_sub_def binary64_eval)

theorem dailyTotals_order_counterexample:
  "mset decimal_txs = mset decimal_txs_reordered
   \<and> \<not> (map_of (dailyTotals decimal_txs) ''2024-06-01''
          = map_of (dailyTotals decimal_txs_reordered) ''2024-06-01'')"
proof -
  have "mset decimal_txs = mset decimal_txs_reordered"
    by (simp add: decimal_txs_def decimal_txs_reordered_def)
  then show ?thesis
    by (simp add: dailyTotals_decimal_txs dailyTotals_decimal_txs_reordered)
qed

text \<open>
  Claim C6, amended: for every transaction list whose amounts are whole numbers with
  magnitudes that add up to at most \<open>2 ^ 53\<close>, and every permutation of it, the two
  aggregations give every date the same bucket (income, expense and net).
\<close>

theorem dailyTotals_permutation:
  assumes "mset txs = mset txs'"
    and "list_all (\<lambda>tx. whole (Transaction.amount tx)) txs"
    and "sum_list (map (\<lambda>tx. magnitude (Transaction.amount tx)) txs) \<le> 2 ^ 53"
  shows "map_of (dailyTotals txs) d = map_of (dailyTotals txs') d"
proof -
  have sets: "set txs = set txs'"
    using assms(1) by (rule mset_eq_setD)
  have all': "list_all (\<lambda>tx. whole (Transaction.amount tx)) txs'"
    using assms(2) sets by (simp add: list_all_iff)
  have "sum_list (map (\<lambda>tx. magnitude (Transaction.amount tx)) (filter (\<lambda>tx. True) txs'))
        = sum_list (map (\<lambda>tx. magnitude (Transaction.amount tx)) (filter (\<lambda>tx. True) txs))"
    by (rule sum_list_map_mset) (simp add: assms(1))
  then have bound': "sum_list (map (\<lambda>tx. magnitude (Transaction.amount tx)) txs') \<le> 2 ^ 53"
    using assms(3) by simp
  have "amount_on ty d txs = amount_on ty d txs'" for ty
    by (simp only: amount_on_whole [OF assms(2,3)] amount_on_whole [OF all' bound']
        sum_list_map_mset [OF assms(1)])
  then have "bucket_of_date d txs = bucket_of_date d txs'"
    by (simp add: bucket_of_date_def)
  then show ?thesis
    by (simp add: map_of_dailyTotals sets)
qed

text \<open>The scenario's three transactions, whole amounts adding up to 1500, in two orders.\<close>

theorem dailyTotals_permutation_witness:
  "mset june_txs = mset june_txs_reordered
   \<and> list_all (\<lambda>tx. whole (Transaction.amount tx)) june_txs
   \<and> sum_list (map (\<lambda>tx. magnitude (Transaction.amount tx)) june_txs) \<le> 2 ^ 53
   \<and> map_of (dailyTotals june_txs_reordered) ''2024-06-01'' =
       Some \<lparr> income = Fin 1000, expense = Fin 300, net = Fin 700 \<rparr>
   \<and> map_of (dailyTotals june_txs) ''2024-06-01'' =
       Some \<lparr> income = Fin 1000, expense = Fin 300, net = Fin 700 \<rparr>"
proof -
  have perm: "mset june_txs = mset june_txs_reordered"
    by (simp add: june_txs_def june_txs_reordered_def)
  have all: "list_all (\<lambda>tx. whole (Transaction.amount tx)) june_txs"
    by (simp add: june_txs_def tx_row_def whole_def)
  have bound: "sum_list (map (\<lambda>tx. magnitude (Transaction.amount tx)) june_txs) \<le> 2 ^ 53"
    by (simp add: june_txs_def tx_row_def)
  have "map_of (dailyTotals june_txs_reordered) ''2024-06-01'' =
       Some \<lparr> income = Fin 1000, expense = Fin 300, net = Fin 700 \<rparr>"
    by (simp add: june_txs_reordered_def dailyTotals_def accumulate_def tx_row_def
        binary64_sub_def binary64_eval)
  then show ?thesis
    using perm all bound dailyTotals_permutation [OF perm all bound, of "''2024-06-01''"] by simp
qed


section \<open>Properties of the creation paths\<close>

text \<open>
  Claim C7 says that every entry screen accepts an amount only if it is strictly
  positive, and otherwise shows a message and sends nothing. InputPage does so;
  TransactionInputPage tests \<open>< 0\<close> where InputPage tests \<open><= 0\<close>: with the amount
  \<open>0\<close> and a category selected it shows no message and sends an insert with amount 0.
\<close>

theorem zero_amount_accepted_by_TransactionInputPage:
  "inserts (InputPage_handleSubmit parseFloat_sample store_ok ''2024-06-03''
              (input_form ''0'' transport_category)) = []
   \<and> InputPage.error (state (InputPage_handleSubmit parseFloat_sample store_ok ''2024-06-03''
              (input_form ''0'' transport_category))) = Some Enter_amount_correctly
   \<and> inserts (TransactionInputPage_handleSubmit parseFloat_sample store_ok ''2024-06-03''
              (transaction_form ''0'' (Some 3))) =
       [\<lparr> TransactionInsert.user_id = ''u1'', type = Income, amount = Fin 0,
          category_id = 3, memo = None, date = ''2024-06-01'' \<rparr>]
   \<and> TransactionInputPage.error
       (state (TransactionInputPage_handleSubmit parseFloat_sample store_ok ''2024-06-03''
              (transaction_form ''0'' (Some 3)))) = None"
  by (simp add: InputPage_handleSubmit_def TransactionInputPage_handleSubmit_def
      parseFloat_sample_def store_ok_def input_form_def transaction_form_def
      isNaN_def js_less_eq_def string_or_null_def Let_def)

text \<open>
  Claim C8 says that the category sent to the store is the one selected in the form.
  InputPage sends the constant 1: with the transport category selected and the amount
  500, the payload carries \<open>category_id = 1\<close>, and the selected category appears
  nowhere in it.
\<close>

theorem InputPage_sends_fixed_category:
  "inserts (InputPage_handleSubmit parseFloat_sample store_ok ''2024-06-03''
              (input_form ''500'' transport_category)) =
       [\<lparr> TransactionInsert.user_id = ''u1'', type = Expense, amount = Fin 500,
          category_id = 1, memo = None, date = ''2024-06-01'' \<rparr>]"
  by (simp add: InputPage_handleSubmit_def parseFloat_sample_def store_ok_def input_form_def
      isNaN_def js_less_eq_def string_or_null_def Let_def)

text \<open>
  Claim C10: every payload that the new-goal form sends to the store has a current
  amount of 0 and is active, whatever the form holds and whatever the store answers.
\<close>

theorem handleCreateGoal_starts_at_zero:
  assumes "p \<in> set (inserts (handleCreateGoal parseFloat store_insert st))"
  shows "SavingsGoalInsert.current_amount p = Fin 0 \<and> SavingsGoalInsert.is_active p"
  using assms
  by (auto simp: handleCreateGoal_def Let_def split: option.splits if_splits)

text \<open>A goal of 120000 without deadline is sent, with nothing saved yet and active.\<close>

theorem handleCreateGoal_starts_at_zero_witness:
  "\<lparr> SavingsGoalInsert.user_id = ''u1'', goal_name = ''trip'', target_amount = Fin 120000,
      current_amount = Fin 0, deadline = None, is_active = True \<rparr>
     \<in> set (inserts (handleCreateGoal parseFloat_sample store_ok (goal_form ''120000'' [])))
   \<and> SavingsGoalInsert.current_amount
        (hd (inserts (handleCreateGoal parseFloat_sample store_ok (goal_form ''120000'' []))))
       = Fin 0
   \<and> SavingsGoalInsert.is_active
        (hd (inserts (handleCreateGoal parseFloat_sample store_ok (goal_form ''120000'' []))))"
proof -
  have sent: "inserts (handleCreateGoal parseFloat_sample store_ok (goal_form ''120000'' [])) =
     [\<lparr> SavingsGoalInsert.user_id = ''u1'', goal_name = ''trip'', target_amount = Fin 120000,
        current_amount = Fin 0, deadline = None, is_active = True \<rparr>]"
    by (simp add: handleCreateGoal_def parseFloat_sample_def store_ok_def goal_form_def
        isNaN_def js_less_eq_def string_or_null_def Let_def)
  have "hd (inserts (handleCreateGoal parseFloat_sample store_ok (goal_form ''120000'' [])))
        \<in> set (inserts (handleCreateGoal parseFloat_sample store_ok (goal_form ''120000'' [])))"
    by (simp add: sent)
  from handleCreateGoal_starts_at_zero [OF this] sent
  show ?thesis by simp
qed

end

